theory Spec2Isabelle
  imports Complex_Main "HOL-Library.Word"
begin

section \<open>BaseEar: the listening and interruption orchestration of openvoicechat/stt/base.py\<close>

text \<open>
  The class \<open>BaseEar\<close> ties together capture primitives (\<open>record_user\<close>,
  \<open>record_interruption\<close>, \<open>record_user_stream\<close>), a transcriber (the methods
  \<open>transcribe\<close> and \<open>transcribe_stream\<close> that a subclass overrides), a sentence
  segmenter (\<open>pysbd\<close>) and an optional logger. None of these is part of the file: each
  is a parameter of the model. A collaborator may read and change the outside world
  (microphone, model state), so it is a function of a world \<open>'w\<close> and returns the new
  world; it may raise, so its result is a sum (\<open>Inl\<close> the exception); it may never return,
  so the whole is an option (\<open>None\<close>: the call never returns).
\<close>

subsection \<open>Values and exceptions\<close>

datatype exn =
    NotImplementedError string
  | UnboundLocalError string
  | CollaboratorError string

text \<open>What \<open>interrupt_listen\<close> can return: \<open>False\<close>, a string, or \<open>None\<close> (falling off
  the end of the function).\<close>

datatype pyval = PyBool bool | PyStr string | PyNone

fun truthy :: "pyval \<Rightarrow> bool" where
  "truthy (PyBool b) = b"
| "truthy (PyStr s) = (s \<noteq> [])"
| "truthy PyNone = False"

text \<open>An int16 PCM chunk, kept as the list of its int16 values (\<open>tobytes()\<close> lays the
  same values out as bytes). In a queue item \<open>None\<close> is the end-of-stream sentinel.\<close>

type_synonym chunk = "16 word list"

datatype worker = Audio_thread | Transcription_thread

subsection \<open>The Python runtime the code relies on\<close>

text \<open>
  Character classes of \<open>re\<close> (\<open>\w\<close>, \<open>\s\<close>), \<open>str.lower\<close>, float arithmetic and
  formatting, and numpy's conversion of a float sample to int16 are library behaviour:
  they are parameters, and every theorem holds for any choice of them.
\<close>

record ('s, 'f) runtime =
  word_char :: "char \<Rightarrow> bool"
  space_char :: "char \<Rightarrow> bool"
  lower :: "string \<Rightarrow> string"
  to_int16 :: "'s \<Rightarrow> 16 word"
  true_div :: "int \<Rightarrow> int \<Rightarrow> 'f"
  fsub :: "'f \<Rightarrow> 'f \<Rightarrow> 'f"
  fpos :: "'f \<Rightarrow> bool"
  fstr :: "'f \<Rightarrow> string"

subsection \<open>The object and its collaborators\<close>

text \<open>The fields set by \<open>__init__\<close>. \<open>vad\<close>, \<open>listener\<close> and \<open>logger\<close> are opaque
  objects, named by a handle; \<open>None\<close> is Python's \<open>None\<close>.\<close>

record 'f ear =
  silence_seconds :: 'f
  not_interrupt_words :: "string list"
  vad :: nat
  listener :: "nat option"
  stream :: bool
  listen_interruptions :: bool
  logger :: "nat option"

definition BaseEar_init ::
  "'f \<Rightarrow> string list option \<Rightarrow> nat option \<Rightarrow> bool \<Rightarrow> bool \<Rightarrow> nat option \<Rightarrow> nat \<Rightarrow> 'f ear" where
  "BaseEar_init silence_seconds' not_interrupt_words' listener' stream' listen_interruptions'
      logger' new_vad =
     \<lparr> silence_seconds = silence_seconds',
       not_interrupt_words =
         (case not_interrupt_words' of
            None \<Rightarrow> [''you'', ''yes'', ''yeah'', ''hmm'']
          | Some ws \<Rightarrow> ws),
       vad = new_vad,
       listener = listener',
       stream = stream',
       listen_interruptions = listen_interruptions',
       logger = logger' \<rparr>"

text \<open>
  The collaborators. The capture primitives receive the object's fields (here: the
  object) and their own arguments. A streaming worker is described by what it does to
  its queues: \<open>record_user_stream\<close> by the items it puts on the audio queue,
  \<open>transcribe_stream\<close> by the items it puts on the transcription queue for a given
  content of the audio queue; both also say how the call ended (\<open>Inr ()\<close> returned,
  \<open>Inl e\<close> raised).
\<close>

record ('w, 's, 'f) collab =
  record_user :: "'f ear \<Rightarrow> bool \<Rightarrow> 'w \<Rightarrow> ((exn + 's list) \<times> 'w) option"
  record_interruption :: "'f ear \<Rightarrow> 'f \<Rightarrow> 'w \<Rightarrow> ((exn + 's list option) \<times> 'w) option"
  record_user_stream :: "'f ear \<Rightarrow> 'w \<Rightarrow> ((chunk option list \<times> (exn + unit)) \<times> 'w) option"
  transcribe :: "'s list \<Rightarrow> 'w \<Rightarrow> ((exn + string) \<times> 'w) option"
  transcribe_stream ::
    "chunk option list \<Rightarrow> 'w \<Rightarrow> ((string option list \<times> (exn + unit)) \<times> 'w) option"
  segment :: "string \<Rightarrow> 'w \<Rightarrow> ((exn + string list) \<times> 'w) option"



subsection \<open>State: the world, and a record of what the orchestrator did\<close>

datatype ('s, 'f) call =
    Call_record_user bool
  | Call_record_interruption 'f
  | Call_transcribe "'s list"
  | Call_segment string
  | Audio_put "chunk option"
  | Thread_start worker
  | Thread_join worker
  | Transcription_get "string option"

record ('w, 's, 'f) state =
  world :: 'w
  calls :: "('s, 'f) call list"
  logged :: "(string \<times> string \<times> string) list"

definition did :: "('s, 'f) call \<Rightarrow> ('w, 's, 'f) state \<Rightarrow> ('w, 's, 'f) state" where
  "did c st = st\<lparr>calls := calls st @ [c]\<rparr>"

text \<open>\<open>_log_event\<close>: \<open>logger.info(event, extra={"details": details, "further":
  f'"{further}"'})\<close> when there is a logger, nothing otherwise.\<close>

definition log_event ::
  "'f ear \<Rightarrow> string \<Rightarrow> string \<Rightarrow> string \<Rightarrow> ('w, 's, 'f) state \<Rightarrow> ('w, 's, 'f) state" where
  "log_event self event details further st =
     (case logger self of
        None \<Rightarrow> st
      | Some _ \<Rightarrow> st\<lparr>logged := logged st @ [(event, details, [CHR 0x22] @ further @ [CHR 0x22])]\<rparr>)"

text \<open>A direct call of a collaborator: the call is recorded, the world is replaced.\<close>

definition invoke ::
  "('s, 'f) call \<Rightarrow> ('w \<Rightarrow> ('r \<times> 'w) option) \<Rightarrow> ('w, 's, 'f) state \<Rightarrow>
     ('r \<times> ('w, 's, 'f) state) option" where
  "invoke c f st =
     (case f (world st) of
        None \<Rightarrow> None
      | Some (r, w') \<Rightarrow> Some (r, (did c st)\<lparr>world := w'\<rparr>))"

subsection \<open>\<open>str\<close> of an int\<close>

fun str_nat :: "nat \<Rightarrow> string" where
  "str_nat n =
     (if n < 10 then [''0123456789'' ! n]
      else str_nat (n div 10) @ [''0123456789'' ! (n mod 10)])"

declare str_nat.simps [simp del]

definition str_int :: "int \<Rightarrow> string" where
  "str_int i = (if i < 0 then ''-'' @ str_nat (nat (- i)) else str_nat (nat i))"

subsection \<open>\<open>_listen\<close>\<close>

text \<open>
  The \<open>while\<close> loop of \<open>_listen\<close>, with its local variables as arguments. \<open>text\<close> is
  unbound until the first transcription (\<open>None\<close>); \<open>n\<close> starts at 2, so the loop body
  runs at least once.
\<close>

function listen_loop ::
  "('w, 's, 'f) collab \<Rightarrow> 'f ear \<Rightarrow> bool \<Rightarrow> bool \<Rightarrow> 's list \<Rightarrow> int \<Rightarrow> string option \<Rightarrow>
     ('w, 's, 'f) state \<Rightarrow> ((exn + string) \<times> ('w, 's, 'f) state) option" where
  "listen_loop c self sentence_finished first audio n text st =
     (if \<not> sentence_finished \<and> n > 0 then
        (case invoke (Call_record_user (\<not> first)) (record_user c self (\<not> first)) st of
           None \<Rightarrow> None
         | Some (Inl e, st1) \<Rightarrow> Some (Inl e, st1)
         | Some (Inr new_audio, st1) \<Rightarrow>
             (case invoke (Call_transcribe (audio @ new_audio)) (transcribe c (audio @ new_audio))
                     (log_event self ''transcribing'' ''STT'' [] st1) of
                None \<Rightarrow> None
              | Some (Inl e, st2) \<Rightarrow> Some (Inl e, st2)
              | Some (Inr text', st2) \<Rightarrow>
                  (case invoke (Call_segment (text' @ '' .'')) (segment c (text' @ '' .''))
                          (log_event self ''segmenting'' ''STT'' text'
                            (log_event self ''transcribed'' ''STT'' text' st2)) of
                     None \<Rightarrow> None
                   | Some (Inl e, st3) \<Rightarrow> Some (Inl e, st3)
                   | Some (Inr spans, st3) \<Rightarrow>
                       (if length spans > 1 then
                          listen_loop c self True False (audio @ new_audio) n (Some text')
                            (log_event self ''sentence boundary detected'' ''STT'' text' st3)
                        else
                          listen_loop c self sentence_finished False (audio @ new_audio) (n - 1)
                            (Some text')
                            (log_event self ''no sentence boundary detected'' ''STT''
                               (text' @ ''. tries left: '' @ str_int (n - 1)) st3)))))
      else
        (case text of
           None \<Rightarrow> Some (Inl (UnboundLocalError ''text''), st)
         | Some t \<Rightarrow> Some (Inr t, st)))"
  by pat_completeness auto
termination
  by (relation "measure (\<lambda>(c, self, sentence_finished, first, audio, n, text, st).
        if sentence_finished then 0 else nat n + 1)") auto

declare listen_loop.simps [simp del]

definition listen_batch ::
  "('w, 's, 'f) collab \<Rightarrow> 'f ear \<Rightarrow> ('w, 's, 'f) state \<Rightarrow>
     ((exn + string) \<times> ('w, 's, 'f) state) option" where
  "listen_batch c self st = listen_loop c self False True [] 2 None st"

subsection \<open>Queues and worker threads\<close>

text \<open>
  A \<open>Thread\<close> runs its target to the end; an exception raised by the target ends the
  thread and goes to the threading module's hook, not to the thread that started or
  joins it. \<open>join()\<close> returns once the thread has ended and never returns otherwise.
  \<open>Queue.get()\<close> returns the next item and blocks while there is none. A worker that
  has ended puts nothing more, so a \<open>get\<close> on what it left behind, once that is used
  up, never returns.

  The reading loop shared by \<open>_sim_transcribe_stream\<close> and \<open>_listen_stream\<close>:
  \<^verbatim>\<open>while True: _ = transcription_queue.get(); if _ is None: break; text += _ + " "\<close>
  over the items the transcription worker puts, in order.
\<close>

fun drain_queue ::
  "string \<Rightarrow> string option list \<Rightarrow> ('w, 's, 'f) state \<Rightarrow> (string \<times> ('w, 's, 'f) state) option" where
  "drain_queue text [] st = None"
| "drain_queue text (None # q) st = Some (text, did (Transcription_get None) st)"
| "drain_queue text (Some x # q) st =
     drain_queue (text @ x @ '' '') q (did (Transcription_get (Some x)) st)"

subsection \<open>\<open>_sim_transcribe_stream\<close>\<close>

text \<open>\<open>to_int16\<close> is \<open>x \<mapsto> (x * (1 << 15)).astype(np.int16)\<close> on one sample. The thread
  is started and joined before the first \<open>get\<close>.\<close>

definition sim_transcribe_stream ::
  "('s, 'f) runtime \<Rightarrow> ('w, 's, 'f) collab \<Rightarrow> 's list \<Rightarrow> ('w, 's, 'f) state \<Rightarrow>
     ((exn + string) \<times> ('w, 's, 'f) state) option" where
  "sim_transcribe_stream rt c input_audio st =
     (let input_buffer = map (to_int16 rt) input_audio;
          audio_queue = [] @ [Some input_buffer] @ [None];
          st1 = did (Thread_start Transcription_thread)
                  (did (Audio_put None) (did (Audio_put (Some input_buffer)) st))
      in case transcribe_stream c audio_queue (world st1) of
           None \<Rightarrow> None
         | Some ((produced, ended), w') \<Rightarrow>
             (case drain_queue [] produced
                     (did (Thread_join Transcription_thread) (st1\<lparr>world := w'\<rparr>)) of
                None \<Rightarrow> None
              | Some (text, st2) \<Rightarrow> Some (Inr text, st2)))"

subsection \<open>\<open>_listen_stream\<close> and \<open>listen\<close>\<close>

text \<open>Both workers are started, the transcription queue is read up to the sentinel,
  then both are joined. The transcription worker reads what the capture worker puts;
  what the two workers do to the world while they run side by side is taken in that
  order. The outcome of a worker (\<open>ended_a\<close>, \<open>ended_t\<close>) is not looked at: a worker
  that raised has ended, and that is all \<open>join\<close> waits for.\<close>

definition listen_stream ::
  "('w, 's, 'f) collab \<Rightarrow> 'f ear \<Rightarrow> ('w, 's, 'f) state \<Rightarrow>
     ((exn + string) \<times> ('w, 's, 'f) state) option" where
  "listen_stream c self st =
     (let st1 = did (Thread_start Transcription_thread) (did (Thread_start Audio_thread) st)
      in case record_user_stream c self (world st1) of
           None \<Rightarrow> None
         | Some ((audio_items, ended_a), w1) \<Rightarrow>
             (case transcribe_stream c ([] @ audio_items) w1 of
                None \<Rightarrow> None
              | Some ((produced, ended_t), w2) \<Rightarrow>
                  (case drain_queue [] produced (st1\<lparr>world := w2\<rparr>) of
                     None \<Rightarrow> None
                   | Some (text, st2) \<Rightarrow>
                       Some (Inr text,
                         did (Thread_join Transcription_thread)
                           (did (Thread_join Audio_thread) st2)))))"

definition listen ::
  "('w, 's, 'f) collab \<Rightarrow> 'f ear \<Rightarrow> ('w, 's, 'f) state \<Rightarrow>
     ((exn + string) \<times> ('w, 's, 'f) state) option" where
  "listen c self st = (if stream self then listen_stream c self st else listen_batch c self st)"

subsection \<open>\<open>interrupt_listen\<close>\<close>

text \<open>\<open>re.sub(r"[^\w\s]", "", text)\<close> keeps the characters that are \<open>\w\<close> or \<open>\s\<close>;
  \<open>strip()\<close> removes leading and trailing whitespace.\<close>

definition re_sub_nonword :: "('s, 'f) runtime \<Rightarrow> string \<Rightarrow> string" where
  "re_sub_nonword rt text = filter (\<lambda>ch. word_char rt ch \<or> space_char rt ch) text"

definition strip :: "('s, 'f) runtime \<Rightarrow> string \<Rightarrow> string" where
  "strip rt text = rev (dropWhile (space_char rt) (rev (dropWhile (space_char rt) text)))"

definition normalize_text :: "('s, 'f) runtime \<Rightarrow> string \<Rightarrow> string" where
  "normalize_text rt text = strip rt (lower rt (re_sub_nonword rt text))"

text \<open>The transcription of a captured window: through the simulated stream when
  \<open>self.stream\<close>, by \<open>transcribe\<close> otherwise.\<close>

definition transcribe_window ::
  "('s, 'f) runtime \<Rightarrow> ('w, 's, 'f) collab \<Rightarrow> 'f ear \<Rightarrow> 's list \<Rightarrow> ('w, 's, 'f) state \<Rightarrow>
     ((exn + string) \<times> ('w, 's, 'f) state) option" where
  "transcribe_window rt c self interruption_audio st =
     (if stream self then sim_transcribe_stream rt c interruption_audio st
      else invoke (Call_transcribe interruption_audio) (transcribe c interruption_audio) st)"

text \<open>The \<open>while record_seconds > 0\<close> loop. It need not end (a window of no samples
  that transcribes to an ignorable word leaves the budget as it was), so it is a partial
  function: \<open>None\<close> is a call that never returns. Leaving the loop by its condition
  reaches the end of the function, which returns \<open>None\<close> in Python: \<open>PyNone\<close>.\<close>

partial_function (option) interrupt_loop ::
  "('s, 'f) runtime \<Rightarrow> ('w, 's, 'f) collab \<Rightarrow> 'f ear \<Rightarrow> 'f \<Rightarrow> ('w, 's, 'f) state \<Rightarrow>
     ((exn + pyval) \<times> ('w, 's, 'f) state) option" where
  "interrupt_loop rt c self record_seconds st =
     (if fpos rt record_seconds then
        (case invoke (Call_record_interruption record_seconds)
                (record_interruption c self record_seconds) st of
           None \<Rightarrow> None
         | Some (Inl e, st1) \<Rightarrow> Some (Inl e, st1)
         | Some (Inr None, st1) \<Rightarrow> Some (Inr (PyStr []), st1)
         | Some (Inr (Some interruption_audio), st1) \<Rightarrow>
             (case transcribe_window rt c self interruption_audio
                     (log_event self ''transcribing interruption'' ''STT''
                        (fstr rt (true_div rt (int (length interruption_audio)) 16000)
                           @ '' seconds'') st1) of
                None \<Rightarrow> None
              | Some (Inl e, st2) \<Rightarrow> Some (Inl e, st2)
              | Some (Inr text, st2) \<Rightarrow>
                  (if normalize_text rt text \<in> set (not_interrupt_words self) then
                     interrupt_loop rt c self
                       (fsub rt record_seconds
                          (true_div rt (int (length interruption_audio)) 16000))
                       (log_event self ''not interruption'' ''STT'' (normalize_text rt text)
                          (log_event self ''interruption transcribed'' ''STT'' text st2))
                   else
                     Some (Inr (PyStr (normalize_text rt text)),
                       log_event self ''interruption transcribed'' ''STT'' text st2))))
      else Some (Inr PyNone, st))"

definition interrupt_listen ::
  "('s, 'f) runtime \<Rightarrow> ('w, 's, 'f) collab \<Rightarrow> 'f ear \<Rightarrow> 'f \<Rightarrow> ('w, 's, 'f) state \<Rightarrow>
     ((exn + pyval) \<times> ('w, 's, 'f) state) option" where
  "interrupt_listen rt c self record_seconds st =
     (if \<not> listen_interruptions self then Some (Inr (PyBool False), st)
      else interrupt_loop rt c self record_seconds st)"

subsection \<open>Notions the statements below use\<close>

text \<open>The workers that are started and not yet joined after a sequence of calls, given
  those that were so before it.\<close>

fun running :: "worker set \<Rightarrow> ('s, 'f) call list \<Rightarrow> worker set" where
  "running A [] = A"
| "running A (Thread_start w # cs) = running (insert w A) cs"
| "running A (Thread_join w # cs) = running (A - {w}) cs"
| "running A (_ # cs) = running A cs"

text \<open>The fragments joined by single spaces, as \<open>" ".join(fragments)\<close>, and the plain
  concatenation: the two readings of "concatenation" that the loop
  \<open>text += fragment + " "\<close> is compared with.\<close>

fun space_joined :: "string list \<Rightarrow> string" where
  "space_joined [] = []"
| "space_joined [x] = x"
| "space_joined (x # y # ys) = x @ '' '' @ space_joined (y # ys)"

definition each_followed_by_space :: "string list \<Rightarrow> string" where
  "each_followed_by_space fragments = concat (map (\<lambda>x. x @ '' '') fragments)"

text \<open>A run of the loop of \<open>interrupt_listen\<close> in which every captured window
  transcribes to an ignorable word, until the budget is no longer positive:
  \<open>filler_run rt c self T st st'\<close> starts with budget \<open>T\<close> in state \<open>st\<close> and leaves the
  loop in state \<open>st'\<close>.\<close>

inductive filler_run ::
  "('s, 'f) runtime \<Rightarrow> ('w, 's, 'f) collab \<Rightarrow> 'f ear \<Rightarrow> 'f \<Rightarrow> ('w, 's, 'f) state \<Rightarrow>
     ('w, 's, 'f) state \<Rightarrow> bool" where
  budget_spent: "\<not> fpos rt T \<Longrightarrow> filler_run rt c self T st st"
| filler_window:
    "fpos rt T \<Longrightarrow>
     record_interruption c self T (world st) = Some (Inr (Some audio), w1) \<Longrightarrow>
     transcribe_window rt c self audio
        (log_event self ''transcribing interruption'' ''STT''
           (fstr rt (true_div rt (int (length audio)) 16000) @ '' seconds'')
           ((did (Call_record_interruption T) st)\<lparr>world := w1\<rparr>)) = Some (Inr t, st2) \<Longrightarrow>
     normalize_text rt t \<in> set (not_interrupt_words self) \<Longrightarrow>
     filler_run rt c self (fsub rt T (true_div rt (int (length audio)) 16000))
        (log_event self ''not interruption'' ''STT'' (normalize_text rt t)
           (log_event self ''interruption transcribed'' ''STT'' t st2)) st' \<Longrightarrow>
     filler_run rt c self T st st'"

text \<open>
  The normalization as the specification words it: keep only the word and space
  characters, lowercase, trim the whitespace at both ends. It is written without
  reference to \<open>normalize_text\<close>, the code's three calls, and shown equal to it below.
\<close>

fun keep_word_and_space :: "('s, 'f) runtime \<Rightarrow> string \<Rightarrow> string" where
  "keep_word_and_space rt [] = []"
| "keep_word_and_space rt (ch # s) =
     (if word_char rt ch then ch # keep_word_and_space rt s
      else if space_char rt ch then ch # keep_word_and_space rt s
      else keep_word_and_space rt s)"

fun trim_leading :: "('s, 'f) runtime \<Rightarrow> string \<Rightarrow> string" where
  "trim_leading rt [] = []"
| "trim_leading rt (ch # s) = (if space_char rt ch then trim_leading rt s else ch # s)"

fun trim_trailing :: "('s, 'f) runtime \<Rightarrow> string \<Rightarrow> string" where
  "trim_trailing rt [] = []"
| "trim_trailing rt (ch # s) =
     (if trim_trailing rt s = [] \<and> space_char rt ch then [] else ch # trim_trailing rt s)"

definition spec_normalized :: "('s, 'f) runtime \<Rightarrow> string \<Rightarrow> string" where
  "spec_normalized rt t = trim_trailing rt (trim_leading rt (lower rt (keep_word_and_space rt t)))"

text \<open>Whether the last thing done was a capture by \<open>record_interruption\<close>: so it is
  when \<open>interrupt_listen\<close> returns because nothing was captured, and not when it returns
  the text of a transcribed window.\<close>

definition last_call_is_capture :: "('s, 'f) call list \<Rightarrow> bool" where
  "last_call_is_capture cs = (case rev cs of Call_record_interruption _ # _ \<Rightarrow> True | _ \<Rightarrow> False)"

subsection \<open>A concrete instance, to run the model\<close>

text \<open>
  Character classes and \<open>lower\<close> as Python has them on ASCII text, exact rational
  arithmetic in place of floats (\<open>fstr\<close> prints the integer part only), and the
  conversion to int16 by truncation. Collaborators that follow a script: the world
  counts the capture calls made, \<open>windows\<close> lists what the captures return in turn,
  \<open>stt\<close> is the transcriber, \<open>sbd\<close> the segmenter and \<open>out\<close> what the streaming
  transcriber does.
\<close>

definition ascii_word_char :: "char \<Rightarrow> bool" where
  "ascii_word_char ch =
     (let k = (of_char ch :: nat)
      in (48 \<le> k \<and> k \<le> 57) \<or> (65 \<le> k \<and> k \<le> 90) \<or> k = 95 \<or> (97 \<le> k \<and> k \<le> 122))"

definition ascii_space_char :: "char \<Rightarrow> bool" where
  "ascii_space_char ch =
     (let k = (of_char ch :: nat) in (9 \<le> k \<and> k \<le> 13) \<or> (28 \<le> k \<and> k \<le> 32))"

definition ascii_lower :: "string \<Rightarrow> string" where
  "ascii_lower =
     map (\<lambda>ch. case map_of (zip ''ABCDEFGHIJKLMNOPQRSTUVWXYZ'' ''abcdefghijklmnopqrstuvwxyz'') ch of
                 None \<Rightarrow> ch
               | Some l \<Rightarrow> l)"

definition demo_runtime :: "(rat, rat) runtime" where
  "demo_runtime =
     \<lparr> word_char = ascii_word_char,
       space_char = ascii_space_char,
       lower = ascii_lower,
       to_int16 = (\<lambda>x. word_of_int (if 0 \<le> x then \<lfloor>x * 32768\<rfloor> else \<lceil>x * 32768\<rceil>)),
       true_div = (\<lambda>a b. of_int a / of_int b),
       fsub = (\<lambda>x y. x - y),
       fpos = (\<lambda>x. 0 < x),
       fstr = (\<lambda>x. str_int \<lfloor>x\<rfloor>) \<rparr>"

definition demo_collab ::
  "rat list option list \<Rightarrow> (rat list \<Rightarrow> string) \<Rightarrow> (string \<Rightarrow> string list) \<Rightarrow>
     (string option list \<times> (exn + unit)) \<Rightarrow> (nat, rat, rat) collab" where
  "demo_collab windows stt sbd out =
     \<lparr> record_user =
         (\<lambda>self started w. Some (Inr (case drop w windows of Some a # _ \<Rightarrow> a | _ \<Rightarrow> []), Suc w)),
       record_interruption =
         (\<lambda>self T w. Some (Inr (case drop w windows of a # _ \<Rightarrow> a | [] \<Rightarrow> None), Suc w)),
       record_user_stream = (\<lambda>self w. Some (([Some [], None], Inr ()), w)),
       transcribe = (\<lambda>a w. Some (Inr (stt a), w)),
       transcribe_stream = (\<lambda>q w. Some (out, w)),
       segment = (\<lambda>t w. Some (Inr (sbd t), w)) \<rparr>"

definition demo_ear :: "bool \<Rightarrow> rat ear" where
  "demo_ear streaming = BaseEar_init 2 None None streaming True None 0"

definition demo_state :: "(nat, rat, rat) state" where
  "demo_state = \<lparr> world = 0, calls = [], logged = [] \<rparr>"

definition demo_stt :: "rat list \<Rightarrow> string" where
  "demo_stt a =
     (if length a = 0 then []
      else if length a = 1 then ''Yes.''
      else if length a = 2 then ''Hello there''
      else if length a = 3 then ''Hello there, how are you?''
      else if length a = 4 then ''Stop now!''
      else ''...'')"

definition demo_sbd :: "string \<Rightarrow> string list" where
  "demo_sbd t =
     (if CHR ''?'' \<in> set t
      then [takeWhile (\<lambda>ch. ch \<noteq> CHR ''?'') t @ ''? '', drop 2 (dropWhile (\<lambda>ch. ch \<noteq> CHR ''?'') t)]
      else [t])"

section \<open>Properties\<close>

subsection \<open>Basic facts about the state\<close>

lemma log_event_world [simp]: "world (log_event self e d f st) = world st"
  by (simp add: log_event_def split: option.split)

lemma log_event_calls [simp]: "calls (log_event self e d f st) = calls st"
  by (simp add: log_event_def split: option.split)

lemma did_world [simp]: "world (did c st) = world st"
  by (simp add: did_def)

lemma did_calls [simp]: "calls (did c st) = calls st @ [c]"
  by (simp add: did_def)

lemma did_logged [simp]: "logged (did c st) = logged st"
  by (simp add: did_def)

lemma invoke_returns:
  "f (world st) = Some (r, w') \<Longrightarrow> invoke c f st = Some (r, (did c st)\<lparr>world := w'\<rparr>)"
  by (simp add: invoke_def)

lemmas demo_defs =
  demo_collab_def demo_ear_def BaseEar_init_def demo_state_def demo_stt_def demo_sbd_def
  demo_runtime_def ascii_word_char_def ascii_space_char_def ascii_lower_def
  normalize_text_def strip_def re_sub_nonword_def log_event_def did_def invoke_def
  transcribe_window_def sim_transcribe_stream_def each_followed_by_space_def

subsection \<open>The loop of \<open>_listen\<close>\<close>

lemma listen_loop_exit:
  "listen_loop c self True first audio n (Some t) st = Some (Inr t, st)"
  by (subst listen_loop.simps) simp

lemma listen_loop_exhausted:
  "listen_loop c self fin first audio 0 (Some t) st = Some (Inr t, st)"
  by (subst listen_loop.simps) simp

lemma listen_loop_boundary:
  assumes "n > 0"
    and "record_user c self (\<not> first) (world st) = Some (Inr new_audio, w1)"
    and "transcribe c (audio @ new_audio) w1 = Some (Inr t, w2)"
    and "segment c (t @ '' .'') w2 = Some (Inr spans, w3)"
    and "length spans > 1"
  shows "\<exists>st'. listen_loop c self False first audio n text st = Some (Inr t, st') \<and>
           world st' = w3 \<and>
           calls st' = calls st @ [Call_record_user (\<not> first), Call_transcribe (audio @ new_audio),
                                   Call_segment (t @ '' .'')]"
  using assms
  by (subst listen_loop.simps) (simp add: invoke_returns listen_loop_exit)

lemma listen_loop_no_boundary:
  assumes "n > 0"
    and "record_user c self (\<not> first) (world st) = Some (Inr new_audio, w1)"
    and "transcribe c (audio @ new_audio) w1 = Some (Inr t, w2)"
    and "segment c (t @ '' .'') w2 = Some (Inr spans, w3)"
    and "length spans \<le> 1"
  shows "\<exists>st'. listen_loop c self False first audio n text st =
              listen_loop c self False False (audio @ new_audio) (n - 1) (Some t) st' \<and>
           world st' = w3 \<and>
           calls st' = calls st @ [Call_record_user (\<not> first), Call_transcribe (audio @ new_audio),
                                   Call_segment (t @ '' .'')]"
  using assms
  apply (subst listen_loop.simps)
  apply (simp add: invoke_returns)
  apply (rule exI, rule conjI, rule refl)
  apply simp
  done

text \<open>
  Claim C1. When the segmenter finds at most one span in \<open>text + " ."\<close> in both cycles
  (and the collaborators return), \<open>_listen\<close> makes exactly two capture, transcribe and
  segment cycles: the first capture with \<open>started = False\<close>, the second with
  \<open>started = True\<close>, each transcription over all the audio captured so far; it returns
  the text of the second transcription.
\<close>

theorem listen_two_cycles_without_boundary:
  assumes "record_user c self False (world st) = Some (Inr a1, w1)"
    and "transcribe c a1 w1 = Some (Inr t1, w2)"
    and "segment c (t1 @ '' .'') w2 = Some (Inr s1, w3)"
    and "length s1 \<le> 1"
    and "record_user c self True w3 = Some (Inr a2, w4)"
    and "transcribe c (a1 @ a2) w4 = Some (Inr t2, w5)"
    and "segment c (t2 @ '' .'') w5 = Some (Inr s2, w6)"
    and "length s2 \<le> 1"
  shows "\<exists>st'. listen_batch c self st = Some (Inr t2, st') \<and> world st' = w6 \<and>
           calls st' = calls st @
             [Call_record_user False, Call_transcribe a1, Call_segment (t1 @ '' .''),
              Call_record_user True, Call_transcribe (a1 @ a2), Call_segment (t2 @ '' .'')]"
proof -
  obtain sta where a: "listen_loop c self False True [] 2 None st =
        listen_loop c self False False a1 1 (Some t1) sta"
    and wa: "world sta = w3"
    and ca: "calls sta = calls st @ [Call_record_user False, Call_transcribe a1,
                                     Call_segment (t1 @ '' .'')]"
    using listen_loop_no_boundary [of 2 c self True st a1 w1 "[]" t1 w2 s1 w3 None] assms
    by auto
  obtain stb where b: "listen_loop c self False False a1 1 (Some t1) sta =
        listen_loop c self False False (a1 @ a2) 0 (Some t2) stb"
    and wb: "world stb = w6"
    and cb: "calls stb = calls sta @ [Call_record_user True, Call_transcribe (a1 @ a2),
                                     Call_segment (t2 @ '' .'')]"
    using listen_loop_no_boundary [of 1 c self False sta a2 w4 a1 t2 w5 s2 w6 "Some t1"] assms wa
    by auto
  show ?thesis
    unfolding listen_batch_def using a b wb ca cb by (simp add: listen_loop_exhausted)
qed

theorem listen_two_cycles_without_boundary_witness:
  "map_option (\<lambda>(r, st). (r, world st, calls st))
     (listen_batch
        (demo_collab [Some [1 / 2, 1 / 4], Some [0]] demo_stt (\<lambda>t. [t]) ([], Inr ()))
        (demo_ear False) demo_state) =
   Some (Inr ''Hello there, how are you?'', 2,
     [Call_record_user False, Call_transcribe [1 / 2, 1 / 4], Call_segment ''Hello there .'',
      Call_record_user True, Call_transcribe [1 / 2, 1 / 4, 0],
      Call_segment ''Hello there, how are you? .''])"
  using listen_two_cycles_without_boundary
    [of "demo_collab [Some [1 / 2, 1 / 4], Some [0]] demo_stt (\<lambda>t. [t]) ([], Inr ())"
        "demo_ear False" demo_state "[1 / 2, 1 / 4]" 1 "''Hello there''" 1
        "[''Hello there .'']" 1 "[0]" 2 "''Hello there, how are you?''" 2
        "[''Hello there, how are you? .'']" 2]
  by (auto simp: demo_collab_def demo_state_def demo_stt_def)

text \<open>
  Claim C2. When the segmenter finds more than one span in the first transcription with
  \<open>" ."\<close> appended, \<open>_listen\<close> makes exactly one capture, transcribe and segment cycle
  and returns the first transcription; no second capture is made.
\<close>

theorem listen_one_cycle_on_boundary:
  assumes "record_user c self False (world st) = Some (Inr a1, w1)"
    and "transcribe c a1 w1 = Some (Inr t1, w2)"
    and "segment c (t1 @ '' .'') w2 = Some (Inr s1, w3)"
    and "length s1 > 1"
  shows "\<exists>st'. listen_batch c self st = Some (Inr t1, st') \<and> world st' = w3 \<and>
           calls st' = calls st @
             [Call_record_user False, Call_transcribe a1, Call_segment (t1 @ '' .'')]"
  unfolding listen_batch_def
  using listen_loop_boundary [of 2 c self True st a1 w1 "[]" t1 w2 s1 w3 None] assms
  by simp


theorem listen_one_cycle_on_boundary_witness:
  "map_option (\<lambda>(r, st). (r, world st, calls st))
     (listen_batch
        (demo_collab [Some [1 / 2, 1 / 4, 0], Some [0]] demo_stt demo_sbd ([], Inr ()))
        (demo_ear False) demo_state) =
   Some (Inr ''Hello there, how are you?'', 1,
     [Call_record_user False, Call_transcribe [1 / 2, 1 / 4, 0],
      Call_segment ''Hello there, how are you? .''])"
  using listen_one_cycle_on_boundary
    [of "demo_collab [Some [1 / 2, 1 / 4, 0], Some [0]] demo_stt demo_sbd ([], Inr ())"
        "demo_ear False" demo_state "[1 / 2, 1 / 4, 0]" 1 "''Hello there, how are you?''" 1
        "[''Hello there, how are you? '', ''.'']" 1]
  by (auto simp: demo_collab_def demo_state_def demo_stt_def demo_sbd_def)

subsection \<open>Reading the transcription queue\<close>

lemma drain_queue_fragments:
  "\<exists>st'. drain_queue acc (map Some fragments @ None # later) st =
            Some (acc @ each_followed_by_space fragments, st') \<and>
          world st' = world st \<and>
          calls st' = calls st @ map (\<lambda>x. Transcription_get (Some x)) fragments
                        @ [Transcription_get None]"
proof (induction fragments arbitrary: acc st)
  case Nil
  show ?case by (simp add: each_followed_by_space_def)
next
  case (Cons x xs)
  from Cons [of "acc @ x @ '' ''" "did (Transcription_get (Some x)) st"]
  show ?case by (auto simp: each_followed_by_space_def)
qed

lemma drain_queue_calls:
  "drain_queue acc q st = Some (t, st') \<Longrightarrow>
     world st' = world st \<and> (\<exists>gets. calls st' = calls st @ map Transcription_get gets)"
proof (induction acc q st rule: drain_queue.induct)
  case (1 acc st)
  then show ?case by simp
next
  case (2 acc q st)
  then have "calls st' = calls st @ map Transcription_get [None]" by auto
  with 2 show ?case by (metis did_world drain_queue.simps(2) option.inject prod.inject)
next
  case (3 acc x q st)
  then obtain gets where "world st' = world st"
    and "calls st' = calls st @ map Transcription_get (Some x # gets)" by auto
  then show ?case by blast
qed

lemma running_append: "running A (xs @ ys) = running (running A xs) ys"
  by (induction A xs rule: running.induct) simp_all

lemma running_gets: "running A (map Transcription_get gets) = A"
  by (induction gets) simp_all

text \<open>
  Claim C3, as amended. When the transcription worker puts the fragments, then the
  sentinel, then possibly more, and both workers end, \<open>_listen_stream\<close> returns the
  fragments before the sentinel in order, each followed by one space (so the result
  ends with a space when there is a fragment); what follows the sentinel is not read.
\<close>

theorem listen_stream_fragments_each_followed_by_space:
  assumes "record_user_stream c self (world st) = Some ((audio_items, ended_a), w1)"
    and "transcribe_stream c audio_items w1 =
           Some ((map Some fragments @ None # later, ended_t), w2)"
  shows "\<exists>st'. listen_stream c self st = Some (Inr (each_followed_by_space fragments), st') \<and>
           world st' = w2 \<and>
           calls st' = calls st @ [Thread_start Audio_thread, Thread_start Transcription_thread]
             @ map (\<lambda>x. Transcription_get (Some x)) fragments
             @ [Transcription_get None, Thread_join Audio_thread,
                Thread_join Transcription_thread]"
proof -
  let ?st1 = "(did (Thread_start Transcription_thread) (did (Thread_start Audio_thread) st))
                \<lparr>world := w2\<rparr>"
  obtain st2 where d: "drain_queue [] (map Some fragments @ None # later) ?st1 =
        Some ([] @ each_followed_by_space fragments, st2)"
    and w: "world st2 = world ?st1"
    and cs: "calls st2 = calls ?st1 @ map (\<lambda>x. Transcription_get (Some x)) fragments
                 @ [Transcription_get None]"
    using drain_queue_fragments [of "[]" fragments later ?st1] by blast
  show ?thesis
    using assms d w cs by (simp add: listen_stream_def)
qed

theorem listen_stream_fragments_witness:
  "map_option (\<lambda>(r, st). (r, world st, calls st))
     (listen_stream
        (demo_collab [] demo_stt demo_sbd
           ([Some ''hello'', Some ''world'', None, Some ''late''], Inr ()))
        (demo_ear True) demo_state) =
   Some (Inr ''hello world '', 0,
     [Thread_start Audio_thread, Thread_start Transcription_thread,
      Transcription_get (Some ''hello''), Transcription_get (Some ''world''),
      Transcription_get None, Thread_join Audio_thread, Thread_join Transcription_thread])"
  using listen_stream_fragments_each_followed_by_space
    [of "demo_collab [] demo_stt demo_sbd
           ([Some ''hello'', Some ''world'', None, Some ''late''], Inr ())"
        "demo_ear True" demo_state "[Some [], None]" "Inr ()" 0 "[''hello'', ''world'']"
        "[Some ''late'']" "Inr ()" 0]
  by (auto simp: demo_collab_def demo_state_def each_followed_by_space_def)

text \<open>The claim as stated fails: the result is not the fragments joined by spaces.\<close>

theorem listen_stream_not_space_joined:
  "map_option fst
     (listen_stream
        (demo_collab [] demo_stt demo_sbd
           ([Some ''hello'', Some ''world'', None, Some ''late''], Inr ()))
        (demo_ear True) demo_state) = Some (Inr ''hello world '') \<and>
   space_joined [''hello'', ''world''] = ''hello world'' \<and>
   ''hello world '' \<noteq> space_joined [''hello'', ''world'']"
  by (simp add: listen_stream_def demo_defs)

subsection \<open>\<open>_sim_transcribe_stream\<close>\<close>




subsection \<open>The loop of \<open>interrupt_listen\<close>\<close>

lemma interrupt_loop_filler:
  assumes "fpos rt T"
    and "record_interruption c self T (world st) = Some (Inr (Some audio), w1)"
    and "transcribe_window rt c self audio
           (log_event self ''transcribing interruption'' ''STT''
              (fstr rt (true_div rt (int (length audio)) 16000) @ '' seconds'')
              ((did (Call_record_interruption T) st)\<lparr>world := w1\<rparr>)) = Some (Inr t, st2)"
    and "normalize_text rt t \<in> set (not_interrupt_words self)"
  shows "interrupt_loop rt c self T st =
           interrupt_loop rt c self (fsub rt T (true_div rt (int (length audio)) 16000))
             (log_event self ''not interruption'' ''STT'' (normalize_text rt t)
                (log_event self ''interruption transcribed'' ''STT'' t st2))"
  using assms by (subst interrupt_loop.simps) (simp add: invoke_returns)

lemma interrupt_loop_genuine:
  assumes "fpos rt T"
    and "record_interruption c self T (world st) = Some (Inr (Some audio), w1)"
    and "transcribe_window rt c self audio
           (log_event self ''transcribing interruption'' ''STT''
              (fstr rt (true_div rt (int (length audio)) 16000) @ '' seconds'')
              ((did (Call_record_interruption T) st)\<lparr>world := w1\<rparr>)) = Some (Inr t, st2)"
    and "normalize_text rt t \<notin> set (not_interrupt_words self)"
  shows "interrupt_loop rt c self T st =
           Some (Inr (PyStr (normalize_text rt t)),
             log_event self ''interruption transcribed'' ''STT'' t st2)"
  using assms by (subst interrupt_loop.simps) (simp add: invoke_returns)

lemma interrupt_loop_nothing_captured:
  assumes "fpos rt T"
    and "record_interruption c self T (world st) = Some (Inr None, w1)"
  shows "interrupt_loop rt c self T st =
           Some (Inr (PyStr []), (did (Call_record_interruption T) st)\<lparr>world := w1\<rparr>)"
  using assms by (subst interrupt_loop.simps) (simp add: invoke_returns)

lemma interrupt_loop_budget_spent:
  "\<not> fpos rt T \<Longrightarrow> interrupt_loop rt c self T st = Some (Inr PyNone, st)"
  by (subst interrupt_loop.simps) simp

lemma interrupt_loop_returns_no_bool:
  assumes "interrupt_loop rt c self T st = Some y"
  shows "\<forall>b st'. y \<noteq> (Inr (PyBool b), st')"
  by (rule interrupt_loop.raw_induct
        [where P = "\<lambda>rt c self T st y. \<forall>b st'. y \<noteq> (Inr (PyBool b), st')", OF _ assms])
     (auto split: if_splits option.splits sum.splits prod.splits)

text \<open>The code's normalization is the specified one.\<close>

lemma re_sub_nonword_keeps: "re_sub_nonword rt s = keep_word_and_space rt s"
  by (induction s) (simp_all add: re_sub_nonword_def)

lemma trim_leading_dropWhile: "trim_leading rt s = dropWhile (space_char rt) s"
  by (induction s) simp_all

lemma trim_trailing_dropWhile: "trim_trailing rt s = rev (dropWhile (space_char rt) (rev s))"
proof (induction s)
  case Nil
  show ?case by simp
next
  case (Cons ch s)
  show ?case
  proof (cases "\<forall>x\<in>set s. space_char rt x")
    case True
    then have "dropWhile (space_char rt) (rev s) = []" by simp
    with Cons True show ?thesis by (simp add: dropWhile_append)
  next
    case False
    then have "dropWhile (space_char rt) (rev s) \<noteq> []" by (simp add: dropWhile_eq_Nil_conv)
    with Cons False show ?thesis by (simp add: dropWhile_append)
  qed
qed

lemma normalize_text_as_specified: "normalize_text rt t = spec_normalized rt t"
  by (simp add: normalize_text_def spec_normalized_def strip_def re_sub_nonword_keeps
      trim_leading_dropWhile trim_trailing_dropWhile)

lemma trimmed_has_no_outer_space:
  "spec_normalized rt t = [] \<or>
   (\<not> space_char rt (hd (spec_normalized rt t)) \<and> \<not> space_char rt (last (spec_normalized rt t)))"
proof -
  have l: "trim_leading rt s = [] \<or> \<not> space_char rt (hd (trim_leading rt s))" for s
    by (induction s) simp_all
  have t: "trim_trailing rt s = [] \<or> \<not> space_char rt (last (trim_trailing rt s))" for s
    by (induction s) auto
  have h: "trim_trailing rt s = [] \<or> hd (trim_trailing rt s) = hd s" for s
    by (cases s) auto
  have e: "trim_trailing rt s \<noteq> [] \<Longrightarrow> s \<noteq> []" for s by auto
  show ?thesis
    unfolding spec_normalized_def
    using l [of "lower rt (keep_word_and_space rt t)"]
      t [of "trim_leading rt (lower rt (keep_word_and_space rt t))"]
      h [of "trim_leading rt (lower rt (keep_word_and_space rt t))"]
      e [of "trim_leading rt (lower rt (keep_word_and_space rt t))"]
    by metis
qed

text \<open>A string returned by the loop is the empty string of a window in which nothing
  was captured, or the text of a transcribed window that is not a not-interrupt
  word.\<close>

lemma drain_queue_ends_with_sentinel:
  "drain_queue acc q st = Some (t, st') \<Longrightarrow> \<exists>cs. calls st' = cs @ [Transcription_get None]"
  by (induction acc q st rule: drain_queue.induct) auto

lemma transcribe_window_not_capture:
  assumes "transcribe_window rt c self a st = Some (r, st2)"
  shows "\<not> last_call_is_capture (calls st2)"
proof (cases "stream self")
  case False
  with assms show ?thesis
    by (auto simp: transcribe_window_def invoke_def last_call_is_capture_def
        split: option.splits prod.splits)
next
  case True
  with assms obtain q s0 where "drain_queue [] q s0 = Some (projr r, st2)"
    by (auto simp: transcribe_window_def sim_transcribe_stream_def Let_def
        split: option.splits prod.splits)
  from drain_queue_ends_with_sentinel [OF this] show ?thesis
    by (auto simp: last_call_is_capture_def)
qed

lemma interrupt_loop_returned_string:
  assumes "interrupt_loop rt c self T st = Some y"
  shows "\<forall>s st'. y = (Inr (PyStr s), st') \<longrightarrow>
           (if last_call_is_capture (calls st') then s = []
            else s \<notin> set (not_interrupt_words self))"
  by (rule interrupt_loop.raw_induct
        [where P = "\<lambda>rt c self T st y. \<forall>s st'. y = (Inr (PyStr s), st') \<longrightarrow>
                      (if last_call_is_capture (calls st') then s = []
                       else s \<notin> set (not_interrupt_words self))", OF _ assms])
     (auto simp: invoke_def last_call_is_capture_def [of "_ @ [_]"]
           dest: transcribe_window_not_capture
           split: if_splits option.splits sum.splits prod.splits)

text \<open>
  Claim C5. Take an iteration in which a window is captured and its transcription,
  with the characters that are neither word nor space characters removed, lowercased
  and trimmed, is one of the not-interrupt words. That iteration returns nothing: the
  call is the loop continued with the budget reduced by \<open>len(audio) / 16000\<close>, which
  makes another capture only if that budget is positive and otherwise ends. If the call
  returns a string equal to that text at all, the text is empty and the string is the
  empty string of a later window in which nothing was captured: the text is never
  returned as an interruption.
\<close>

theorem interrupt_filler_window_reduces_budget:
  assumes "fpos rt T"
    and "record_interruption c self T (world st) = Some (Inr (Some audio), w1)"
    and "transcribe_window rt c self audio
           (log_event self ''transcribing interruption'' ''STT''
              (fstr rt (true_div rt (int (length audio)) 16000) @ '' seconds'')
              ((did (Call_record_interruption T) st)\<lparr>world := w1\<rparr>)) = Some (Inr t, st2)"
    and "spec_normalized rt t \<in> set (not_interrupt_words self)"
  shows "interrupt_loop rt c self T st =
           interrupt_loop rt c self (fsub rt T (true_div rt (int (length audio)) 16000))
             (log_event self ''not interruption'' ''STT'' (spec_normalized rt t)
                (log_event self ''interruption transcribed'' ''STT'' t st2)) \<and>
         (listen_interruptions self \<longrightarrow>
            interrupt_listen rt c self T st =
              interrupt_loop rt c self (fsub rt T (true_div rt (int (length audio)) 16000))
                (log_event self ''not interruption'' ''STT'' (spec_normalized rt t)
                   (log_event self ''interruption transcribed'' ''STT'' t st2))) \<and>
         (\<not> fpos rt (fsub rt T (true_div rt (int (length audio)) 16000)) \<longrightarrow>
            interrupt_loop rt c self T st =
              Some (Inr PyNone,
                log_event self ''not interruption'' ''STT'' (spec_normalized rt t)
                  (log_event self ''interruption transcribed'' ''STT'' t st2))) \<and>
         (\<forall>st'. interrupt_listen rt c self T st = Some (Inr (PyStr (spec_normalized rt t)), st') \<longrightarrow>
            spec_normalized rt t = [] \<and> last_call_is_capture (calls st'))"
proof -
  let ?T' = "fsub rt T (true_div rt (int (length audio)) 16000)"
  let ?st3 = "log_event self ''not interruption'' ''STT'' (spec_normalized rt t)
                (log_event self ''interruption transcribed'' ''STT'' t st2)"
  have member: "normalize_text rt t \<in> set (not_interrupt_words self)"
    using assms(4) by (simp add: normalize_text_as_specified)
  have step: "interrupt_loop rt c self T st = interrupt_loop rt c self ?T' ?st3"
    using interrupt_loop_filler [OF assms(1-3) member] by (simp add: normalize_text_as_specified)
  have spent: "interrupt_loop rt c self T st = Some (Inr PyNone, ?st3)" if "\<not> fpos rt ?T'"
    using step interrupt_loop_budget_spent [OF that] by simp
  have only: "spec_normalized rt t = [] \<and> last_call_is_capture (calls st')"
    if r: "interrupt_listen rt c self T st = Some (Inr (PyStr (spec_normalized rt t)), st')" for st'
  proof -
    from r have "listen_interruptions self"
      by (auto simp: interrupt_listen_def split: if_splits)
    with r have "interrupt_loop rt c self T st = Some (Inr (PyStr (spec_normalized rt t)), st')"
      by (simp add: interrupt_listen_def)
    from interrupt_loop_returned_string [OF this] assms(4) show ?thesis
      by (auto split: if_splits)
  qed
  show ?thesis using step spent only by (simp add: interrupt_listen_def)
qed

theorem interrupt_filler_window_witness:
  "spec_normalized demo_runtime '' Yes. '' = ''yes'' \<and>
   interrupt_listen demo_runtime
      (demo_collab [Some [0], None] demo_stt demo_sbd ([Some '' Yes.'', None], Inr ()))
      (demo_ear True) 2 demo_state =
   Some (Inr (PyStr []),
      \<lparr> world = 2,
        calls = [Call_record_interruption 2, Audio_put (Some [0]), Audio_put None,
                 Thread_start Transcription_thread, Thread_join Transcription_thread,
                 Transcription_get (Some '' Yes.''), Transcription_get None,
                 Call_record_interruption (2 - 1 / 16000)],
        logged = [] \<rparr>) \<and>
   spec_normalized demo_runtime ''Yes.'' = ''yes'' \<and>
   interrupt_listen demo_runtime
      (demo_collab [Some [0], Some [0, 0, 0, 0]] demo_stt demo_sbd ([], Inr ()))
      (demo_ear False) 2 demo_state =
   Some (Inr (PyStr ''stop now''),
      \<lparr> world = 2,
        calls = [Call_record_interruption 2, Call_transcribe [0],
                 Call_record_interruption (2 - 1 / 16000), Call_transcribe [0, 0, 0, 0]],
        logged = [] \<rparr>)"
proof -
  let ?c = "demo_collab [Some [0], None] demo_stt demo_sbd ([Some '' Yes.'', None], Inr ())"
  let ?st2 = "\<lparr> world = 1,
                calls = [Call_record_interruption (2::rat), Audio_put (Some [0]), Audio_put None,
                         Thread_start Transcription_thread, Thread_join Transcription_thread,
                         Transcription_get (Some '' Yes.''), Transcription_get None],
                logged = [] \<rparr> :: (nat, rat, rat) state"
  have n: "spec_normalized demo_runtime '' Yes. '' = ''yes''"
    by (simp add: spec_normalized_def demo_defs)
  have h1: "fpos demo_runtime 2" by (simp add: demo_runtime_def)
  have h2: "record_interruption ?c (demo_ear True) 2 (world demo_state) = Some (Inr (Some [0]), 1)"
    by (simp add: demo_defs)
  have h3: "transcribe_window demo_runtime ?c (demo_ear True) [0]
           (log_event (demo_ear True) ''transcribing interruption'' ''STT''
              (fstr demo_runtime (true_div demo_runtime (int (length [0::rat])) 16000) @ '' seconds'')
              ((did (Call_record_interruption 2) demo_state)\<lparr>world := 1\<rparr>)) =
            Some (Inr '' Yes. '', ?st2)"
    by (simp add: demo_defs)
  have h4: "spec_normalized demo_runtime '' Yes. '' \<in> set (not_interrupt_words (demo_ear True))"
    by (simp add: n) (simp add: demo_defs)
  have rest: "interrupt_loop demo_runtime ?c (demo_ear True) (2 - 1 / 16000) ?st2 =
     Some (Inr (PyStr []),
      \<lparr> world = 2,
        calls = [Call_record_interruption 2, Audio_put (Some [0]), Audio_put None,
                 Thread_start Transcription_thread, Thread_join Transcription_thread,
                 Transcription_get (Some '' Yes.''), Transcription_get None,
                 Call_record_interruption (2 - 1 / 16000)],
        logged = [] \<rparr>)"
    by (subst interrupt_loop.simps) (simp add: demo_defs)
  have a: "interrupt_listen demo_runtime ?c (demo_ear True) 2 demo_state =
     Some (Inr (PyStr []),
      \<lparr> world = 2,
        calls = [Call_record_interruption 2, Audio_put (Some [0]), Audio_put None,
                 Thread_start Transcription_thread, Thread_join Transcription_thread,
                 Transcription_get (Some '' Yes.''), Transcription_get None,
                 Call_record_interruption (2 - 1 / 16000)],
        logged = [] \<rparr>)"
    using interrupt_filler_window_reduces_budget [OF h1 h2 h3 h4] rest
    by (simp add: demo_defs)
  let ?d = "demo_collab [Some [0], Some [0, 0, 0, 0]] demo_stt demo_sbd ([], Inr ())"
  let ?sb = "\<lparr> world = 1, calls = [Call_record_interruption (2::rat), Call_transcribe [0::rat]],
                logged = [] \<rparr> :: (nat, rat, rat) state"
  have m: "spec_normalized demo_runtime ''Yes.'' = ''yes''"
    by (simp add: spec_normalized_def demo_defs)
  have g2: "record_interruption ?d (demo_ear False) 2 (world demo_state) = Some (Inr (Some [0]), 1)"
    by (simp add: demo_defs)
  have g3: "transcribe_window demo_runtime ?d (demo_ear False) [0]
           (log_event (demo_ear False) ''transcribing interruption'' ''STT''
              (fstr demo_runtime (true_div demo_runtime (int (length [0::rat])) 16000) @ '' seconds'')
              ((did (Call_record_interruption 2) demo_state)\<lparr>world := 1\<rparr>)) = Some (Inr ''Yes.'', ?sb)"
    by (simp add: demo_defs)
  have g4: "spec_normalized demo_runtime ''Yes.'' \<in> set (not_interrupt_words (demo_ear False))"
    by (simp add: m) (simp add: demo_defs)
  have rest2: "interrupt_loop demo_runtime ?d (demo_ear False) (2 - 1 / 16000) ?sb =
     Some (Inr (PyStr ''stop now''),
      \<lparr> world = 2,
        calls = [Call_record_interruption 2, Call_transcribe [0],
                 Call_record_interruption (2 - 1 / 16000), Call_transcribe [0, 0, 0, 0]],
        logged = [] \<rparr>)"
    by (subst interrupt_loop.simps) (simp add: demo_defs)
  have b: "interrupt_listen demo_runtime ?d (demo_ear False) 2 demo_state =
     Some (Inr (PyStr ''stop now''),
      \<lparr> world = 2,
        calls = [Call_record_interruption 2, Call_transcribe [0],
                 Call_record_interruption (2 - 1 / 16000), Call_transcribe [0, 0, 0, 0]],
        logged = [] \<rparr>)"
    using interrupt_filler_window_reduces_budget [OF h1 g2 g3 g4] rest2
    by (simp add: demo_defs)
  from n a m b show ?thesis by simp
qed

text \<open>
  Claim C6, as amended. In the genuine-interruption branch the call returns the
  normalized text; that value is truthy exactly when the normalized text is not empty.
\<close>

theorem interrupt_genuine_returns_normalized_text:
  assumes "fpos rt T"
    and "record_interruption c self T (world st) = Some (Inr (Some audio), w1)"
    and "transcribe_window rt c self audio
           (log_event self ''transcribing interruption'' ''STT''
              (fstr rt (true_div rt (int (length audio)) 16000) @ '' seconds'')
              ((did (Call_record_interruption T) st)\<lparr>world := w1\<rparr>)) = Some (Inr t, st2)"
    and "normalize_text rt t \<notin> set (not_interrupt_words self)"
  shows "interrupt_loop rt c self T st =
           Some (Inr (PyStr (normalize_text rt t)),
             log_event self ''interruption transcribed'' ''STT'' t st2) \<and>
         (listen_interruptions self \<longrightarrow>
            interrupt_listen rt c self T st =
              Some (Inr (PyStr (normalize_text rt t)),
                log_event self ''interruption transcribed'' ''STT'' t st2)) \<and>
         truthy (PyStr (normalize_text rt t)) = (normalize_text rt t \<noteq> [])"
  using interrupt_loop_genuine [OF assms] by (simp add: interrupt_listen_def)

theorem interrupt_genuine_witness:
  "interrupt_listen demo_runtime
      (demo_collab [Some [0, 0, 0, 0]] demo_stt demo_sbd ([], Inr ()))
      (demo_ear False) 100 demo_state =
   Some (Inr (PyStr ''stop now''),
      \<lparr> world = 1, calls = [Call_record_interruption 100, Call_transcribe [0, 0, 0, 0]],
        logged = [] \<rparr>) \<and>
   truthy (PyStr ''stop now'')"
proof -
  let ?c = "demo_collab [Some [0, 0, 0, 0]] demo_stt demo_sbd ([], Inr ())"
  let ?st2 = "\<lparr> world = 1,
                calls = [Call_record_interruption (100::rat), Call_transcribe [0, 0, 0, 0::rat]],
                logged = [] \<rparr> :: (nat, rat, rat) state"
  have h1: "fpos demo_runtime 100" by (simp add: demo_runtime_def)
  have h2: "record_interruption ?c (demo_ear False) 100 (world demo_state) =
              Some (Inr (Some [0, 0, 0, 0]), 1)"
    by (simp add: demo_defs)
  have h3: "transcribe_window demo_runtime ?c (demo_ear False) [0, 0, 0, 0]
           (log_event (demo_ear False) ''transcribing interruption'' ''STT''
              (fstr demo_runtime (true_div demo_runtime (int (length [0, 0, 0, 0::rat])) 16000)
                 @ '' seconds'')
              ((did (Call_record_interruption 100) demo_state)\<lparr>world := 1\<rparr>)) =
            Some (Inr ''Stop now!'', ?st2)"
    by (simp add: demo_defs)
  have h4: "normalize_text demo_runtime ''Stop now!'' \<notin> set (not_interrupt_words (demo_ear False))"
    by (simp add: demo_defs)
  have n: "normalize_text demo_runtime ''Stop now!'' = ''stop now''" by (simp add: demo_defs)
  from interrupt_genuine_returns_normalized_text [OF h1 h2 h3 h4] n
  show ?thesis by (simp add: demo_defs)
qed

text \<open>The claim as stated fails: a transcription of punctuation only normalizes to the
  empty string, which is not a not-interrupt word, and the empty string is returned.\<close>

theorem interrupt_genuine_branch_returns_empty_string:
  "normalize_text demo_runtime ''...'' \<notin> set (not_interrupt_words (demo_ear False)) \<and>
   map_option fst
     (interrupt_listen demo_runtime
        (demo_collab [Some [0, 0, 0, 0, 0]] demo_stt demo_sbd ([], Inr ()))
        (demo_ear False) 100 demo_state) = Some (Inr (PyStr [])) \<and>
   \<not> truthy (PyStr [])"
  unfolding interrupt_listen_def
  by (subst interrupt_loop.simps) (simp add: demo_defs)

text \<open>
  Claim C7, as amended. With interruption listening disabled, \<open>interrupt_listen\<close> returns \<open>False\<close>
  and calls nothing (the state is unchanged). When the capture reports nothing
  captured, in the first or any later iteration, it returns the empty string at once:
  the capture is the last call made, nothing is transcribed. Both values are falsy, and
  \<open>False\<close> is returned on the first of these paths only.
\<close>

theorem interrupt_listen_early_exits:
  "(\<not> listen_interruptions self \<longrightarrow>
      interrupt_listen rt c self T st = Some (Inr (PyBool False), st)) \<and>
   (listen_interruptions self \<and> fpos rt T \<and>
    record_interruption c self T (world st) = Some (Inr None, w1) \<longrightarrow>
      interrupt_listen rt c self T st =
        Some (Inr (PyStr []), (did (Call_record_interruption T) st)\<lparr>world := w1\<rparr>)) \<and>
   (fpos rt T \<and> record_interruption c self T (world st) = Some (Inr None, w1) \<longrightarrow>
      interrupt_loop rt c self T st =
        Some (Inr (PyStr []), (did (Call_record_interruption T) st)\<lparr>world := w1\<rparr>)) \<and>
   (interrupt_listen rt c self T st = Some (Inr (PyBool b), st') \<longrightarrow>
      \<not> listen_interruptions self \<and> \<not> b \<and> st' = st) \<and>
   \<not> truthy (PyBool False) \<and> \<not> truthy (PyStr [])"
  using interrupt_loop_returns_no_bool [of rt c self T st "(Inr (PyBool b), st')"]
  by (auto simp: interrupt_listen_def interrupt_loop_nothing_captured)

theorem interrupt_listen_early_exits_witness:
  "interrupt_listen demo_runtime
      (demo_collab [Some [0, 0, 0, 0]] demo_stt demo_sbd ([], Inr ()))
      ((demo_ear False)\<lparr>listen_interruptions := False\<rparr>) 100 demo_state =
     Some (Inr (PyBool False), demo_state) \<and>
   interrupt_listen demo_runtime
      (demo_collab [None, Some [0, 0, 0, 0]] demo_stt demo_sbd ([], Inr ()))
      (demo_ear False) 100 demo_state =
     Some (Inr (PyStr []), \<lparr> world = 1, calls = [Call_record_interruption 100], logged = [] \<rparr>)"
  using interrupt_listen_early_exits
      [of "(demo_ear False)\<lparr>listen_interruptions := False\<rparr>" demo_runtime
          "demo_collab [Some [0, 0, 0, 0]] demo_stt demo_sbd ([], Inr ())" 100 demo_state 1
          False demo_state]
    interrupt_listen_early_exits
      [of "demo_ear False" demo_runtime
          "demo_collab [None, Some [0, 0, 0, 0]] demo_stt demo_sbd ([], Inr ())" 100 demo_state 1
          False demo_state]
  by (simp add: demo_defs)

text \<open>The claim as stated fails: these are not the only two early exits with a falsy
  value. With listening enabled and a window captured, a transcription of punctuation
  only is returned as the empty string, the value of the nothing-captured exit; and a
  budget that is not positive gives \<open>None\<close>.\<close>

theorem interrupt_listen_third_falsy_exit:
  "listen_interruptions (demo_ear False) \<and>
   record_interruption
      (demo_collab [Some [0, 0, 0, 0, 0]] demo_stt demo_sbd ([], Inr ()))
      (demo_ear False) 100 (world demo_state) = Some (Inr (Some [0, 0, 0, 0, 0]), 1) \<and>
   interrupt_listen demo_runtime
      (demo_collab [Some [0, 0, 0, 0, 0]] demo_stt demo_sbd ([], Inr ()))
      (demo_ear False) 100 demo_state =
     Some (Inr (PyStr []),
       \<lparr> world = 1, calls = [Call_record_interruption 100, Call_transcribe [0, 0, 0, 0, 0]],
         logged = [] \<rparr>) \<and>
   \<not> truthy (PyStr []) \<and>
   interrupt_listen demo_runtime
      (demo_collab [Some [0, 0, 0, 0, 0]] demo_stt demo_sbd ([], Inr ()))
      (demo_ear False) 0 demo_state = Some (Inr PyNone, demo_state) \<and>
   \<not> truthy PyNone"
proof -
  let ?c = "demo_collab [Some [0, 0, 0, 0, 0]] demo_stt demo_sbd ([], Inr ())"
  have a: "interrupt_loop demo_runtime ?c (demo_ear False) 100 demo_state =
     Some (Inr (PyStr []),
       \<lparr> world = 1, calls = [Call_record_interruption 100, Call_transcribe [0, 0, 0, 0, 0]],
         logged = [] \<rparr>)"
    by (subst interrupt_loop.simps) (simp add: demo_defs)
  have b: "interrupt_loop demo_runtime ?c (demo_ear False) 0 demo_state =
     Some (Inr PyNone, demo_state)"
    by (subst interrupt_loop.simps) (simp add: demo_defs)
  show ?thesis using a b by (simp add: interrupt_listen_def) (simp add: demo_defs)
qed

text \<open>
  Claim C8. When every captured window transcribes to a not-interrupt word until the
  budget is no longer positive, the call returns \<open>None\<close>: falsy, and a value other than
  the \<open>False\<close> of the disabled case and the empty string of the nothing-captured case.
\<close>

theorem interrupt_budget_exhausted_returns_None:
  assumes "filler_run rt c self T st st'"
  shows "interrupt_loop rt c self T st = Some (Inr PyNone, st') \<and>
         (listen_interruptions self \<longrightarrow>
            interrupt_listen rt c self T st = Some (Inr PyNone, st')) \<and>
         \<not> truthy PyNone \<and> PyNone \<noteq> PyBool False \<and> PyNone \<noteq> PyStr []"
proof -
  from assms have "interrupt_loop rt c self T st = Some (Inr PyNone, st')"
  proof (induction rule: filler_run.induct)
    case (budget_spent rt T c self st)
    then show ?case by (rule interrupt_loop_budget_spent)
  next
    case (filler_window rt T c self st audio w1 t st2 st')
    from interrupt_loop_filler [OF filler_window(1-4)] filler_window.IH
    show ?case by simp
  qed
  then show ?thesis by (simp add: interrupt_listen_def)
qed

theorem interrupt_budget_exhausted_witness:
  "interrupt_listen demo_runtime
      (demo_collab [Some [0], Some [0], Some [0, 0, 0, 0]] demo_stt demo_sbd ([], Inr ()))
      (demo_ear False) (1 / 8000) demo_state =
     Some (Inr PyNone,
       \<lparr> world = 2,
         calls = [Call_record_interruption (1 / 8000), Call_transcribe [0],
                  Call_record_interruption (1 / 16000), Call_transcribe [0]],
         logged = [] \<rparr>)"
proof -
  let ?c = "demo_collab [Some [0], Some [0], Some [0, 0, 0, 0]] demo_stt demo_sbd ([], Inr ())"
  let ?s1 = "\<lparr> world = 1, calls = [Call_record_interruption (1 / 8000 :: rat), Call_transcribe [0::rat]],
               logged = [] \<rparr> :: (nat, rat, rat) state"
  let ?s2 = "\<lparr> world = 2,
               calls = [Call_record_interruption (1 / 8000 :: rat), Call_transcribe [0::rat],
                        Call_record_interruption (1 / 16000), Call_transcribe [0]],
               logged = [] \<rparr> :: (nat, rat, rat) state"
  have r0: "filler_run demo_runtime ?c (demo_ear False) 0 ?s2 ?s2"
    by (rule budget_spent) (simp add: demo_runtime_def)
  have r1: "filler_run demo_runtime ?c (demo_ear False) (1 / 16000) ?s1 ?s2"
    apply (rule filler_window [where audio = "[0]" and ?w1.0 = 2 and t = "''Yes.''" and ?st2.0 = ?s2])
    using r0 apply (simp_all add: demo_defs)
    done
  have r2: "filler_run demo_runtime ?c (demo_ear False) (1 / 8000) demo_state ?s2"
    apply (rule filler_window [where audio = "[0]" and ?w1.0 = 1 and t = "''Yes.''" and ?st2.0 = ?s1])
    using r1 apply (simp_all add: demo_defs)
    done
  from interrupt_budget_exhausted_returns_None [OF r2]
  show ?thesis by (simp add: demo_defs)
qed

subsection \<open>Exceptions\<close>











subsection \<open>Worker lifetime\<close>

text \<open>
  Claim C10. A call of \<open>_listen_stream\<close> that returns has started both workers and
  joined both after reading the queue, and both worker calls have ended: no worker that
  the call started is still running when it returns.
\<close>

theorem listen_stream_returns_after_both_workers:
  assumes "listen_stream c self st = Some (r, st')"
  shows "(\<exists>audio_items ended_a w1 produced ended_t.
            record_user_stream c self (world st) = Some ((audio_items, ended_a), w1) \<and>
            transcribe_stream c audio_items w1 = Some ((produced, ended_t), world st')) \<and>
         (\<exists>gets. calls st' = calls st @ [Thread_start Audio_thread, Thread_start Transcription_thread]
            @ map Transcription_get gets
            @ [Thread_join Audio_thread, Thread_join Transcription_thread]) \<and>
         running A (calls st') = running A (calls st) - {Audio_thread, Transcription_thread}"
proof -
  let ?st0 = "did (Thread_start Transcription_thread) (did (Thread_start Audio_thread) st)"
  from assms obtain audio_items ended_a w1 produced ended_t w2 t0 st2
    where a: "record_user_stream c self (world st) = Some ((audio_items, ended_a), w1)"
      and t: "transcribe_stream c audio_items w1 = Some ((produced, ended_t), w2)"
      and d: "drain_queue [] produced (?st0\<lparr>world := w2\<rparr>) = Some (t0, st2)"
      and s: "st' = did (Thread_join Transcription_thread) (did (Thread_join Audio_thread) st2)"
    by (auto simp: listen_stream_def split: option.splits prod.splits)
  from drain_queue_calls [OF d] obtain gets
    where w: "world st2 = w2"
      and g: "calls st2 = calls st @ [Thread_start Audio_thread, Thread_start Transcription_thread]
            @ map Transcription_get gets"
    by auto
  have c: "calls st' = calls st @ [Thread_start Audio_thread, Thread_start Transcription_thread]
            @ map Transcription_get gets
            @ [Thread_join Audio_thread, Thread_join Transcription_thread]"
    using s g by simp
  have "running A (calls st') = running A (calls st) - {Audio_thread, Transcription_thread}"
    unfolding c by (auto simp: running_append running_gets)
  moreover have "world st' = w2" using s w by simp
  ultimately show ?thesis using a t c by blast
qed


theorem listen_stream_returns_after_both_workers_witness:
  "listen_stream
     (demo_collab [] demo_stt demo_sbd ([Some ''hello'', None], Inr ()))
     (demo_ear True) demo_state =
   Some (Inr ''hello '',
     \<lparr> world = 0,
       calls = [Thread_start Audio_thread, Thread_start Transcription_thread,
                Transcription_get (Some ''hello''), Transcription_get None,
                Thread_join Audio_thread, Thread_join Transcription_thread],
       logged = [] \<rparr>) \<and>
   running {}
     [Thread_start Audio_thread, Thread_start Transcription_thread,
      Transcription_get (Some ''hello''), Transcription_get None,
      Thread_join Audio_thread, Thread_join Transcription_thread] = {}"
proof -
  have e: "listen_stream
     (demo_collab [] demo_stt demo_sbd ([Some ''hello'', None], Inr ()))
     (demo_ear True) demo_state =
   Some (Inr ''hello '',
     \<lparr> world = 0,
       calls = [Thread_start Audio_thread, Thread_start Transcription_thread,
                Transcription_get (Some ''hello''), Transcription_get None,
                Thread_join Audio_thread, Thread_join Transcription_thread],
       logged = [] \<rparr>)"
    by (simp add: listen_stream_def demo_collab_def demo_state_def did_def)
  from listen_stream_returns_after_both_workers [OF e, of "{}"] e
  show ?thesis by (simp add: demo_state_def)
qed

end
